theory Spec2Isabelle
  imports Main
begin

section \<open>Python values and strings\<close>

text \<open>
  The stage results of the pipeline are Python dictionaries with string keys
  (\<^verbatim>\<open>Dict[str, Any]\<close>).  A dictionary is an association list in insertion order;
  lookup takes the first binding of a key.  A Python \<^verbatim>\<open>str\<close> is a \<^typ>\<open>string\<close>, one
  \<^typ>\<open>char\<close> per code point, so the model covers text within Latin-1.
\<close>

datatype pyval =
    PStr string
  | PInt int
  | PList "pyval list"
  | PDict "(string \<times> pyval) list"

type_synonym pydict = "(string \<times> pyval) list"

text \<open>What a call gives back: a value, or an exception carrying \<^verbatim>\<open>str(e)\<close>.\<close>

datatype 'a outcome = Returns 'a | Raises string

text \<open>\<^verbatim>\<open>d[k] = v\<close>: an existing key keeps its position, a new key goes last.\<close>

fun dict_set :: "string \<Rightarrow> 'v \<Rightarrow> (string \<times> 'v) list \<Rightarrow> (string \<times> 'v) list" where
  "dict_set k v [] = [(k, v)]"
| "dict_set k v ((k', v') # kvs) =
     (if k' = k then (k, v) # kvs else (k', v') # dict_set k v kvs)"

text \<open>\<^verbatim>\<open>d.get(k, default)\<close>\<close>

definition dict_get :: "pydict \<Rightarrow> string \<Rightarrow> pyval \<Rightarrow> pyval" where
  "dict_get d k dflt = (case map_of d k of Some v \<Rightarrow> v | None \<Rightarrow> dflt)"

text \<open>\<^verbatim>\<open>str.strip()\<close> removes leading and trailing white space.\<close>

definition is_space :: "char \<Rightarrow> bool" where
  "is_space c =
     (let n = (of_char c :: nat)
      in (9 \<le> n \<and> n \<le> 13) \<or> (28 \<le> n \<and> n \<le> 32) \<or> n = 133 \<or> n = 160)"

definition strip :: "string \<Rightarrow> string" where
  "strip s = rev (dropWhile is_space (rev (dropWhile is_space s)))"

text \<open>\<^verbatim>\<open>str.lower()\<close>.\<close>

definition lower_char :: "char \<Rightarrow> char" where
  "lower_char c =
     (let n = (of_char c :: nat)
      in if (65 \<le> n \<and> n \<le> 90) \<or> (192 \<le> n \<and> n \<le> 222 \<and> n \<noteq> 215)
         then char_of (n + 32) else c)"

definition lower :: "string \<Rightarrow> string" where
  "lower s = map lower_char s"

text \<open>\<^verbatim>\<open>sub in s\<close> on strings: \<open>sub\<close> occurs in \<open>s\<close> as a contiguous substring.\<close>

definition starts_with :: "string \<Rightarrow> string \<Rightarrow> bool" where
  "starts_with s sub = (take (length sub) s = sub)"

fun str_contains :: "string \<Rightarrow> string \<Rightarrow> bool" where
  "str_contains [] sub = (sub = [])"
| "str_contains (c # cs) sub = (starts_with (c # cs) sub \<or> str_contains cs sub)"

text \<open>\<^verbatim>\<open>sep.join(parts)\<close>.\<close>

fun join :: "string \<Rightarrow> string list \<Rightarrow> string" where
  "join sep [] = []"
| "join sep [p] = p"
| "join sep (p # q # ps) = p @ sep @ join sep (q # ps)"

text \<open>Decimal rendering of an integer, as \<^verbatim>\<open>str\<close> gives it.\<close>

function dec_nat :: "nat \<Rightarrow> string" where
  "dec_nat n =
     (if n < 10 then [char_of (48 + n)]
      else dec_nat (n div 10) @ [char_of (48 + n mod 10)])"
  by pat_completeness auto
termination
  by (relation "measure (\<lambda>n. n)") auto

definition dec_int :: "int \<Rightarrow> string" where
  "dec_int i = (if i < 0 then CHR ''-'' # dec_nat (nat (- i)) else dec_nat (nat i))"

section \<open>The collaborators\<close>

text \<open>
  The four stage agents call language-model, search and image services; the supervisor
  sees only what each call returns or raises.  They are parameters of the model, with
  the one thing of the Python runtime that is not written out here: \<^verbatim>\<open>str()\<close> of a list
  or a dictionary.  A call that returns gives a dictionary, as every path of the four
  agents does.
\<close>

record env =
  container_str :: "pyval \<Rightarrow> string"
  tone_agent_analyze_tone :: "string \<Rightarrow> pydict outcome"
  research_agent_research_topic :: "string \<Rightarrow> pydict outcome"
  content_agent_create_content :: "pydict \<Rightarrow> pydict \<Rightarrow> string \<Rightarrow> pydict outcome"
  image_agent_generate_image :: "pyval \<Rightarrow> string \<Rightarrow> pydict outcome"

text \<open>A value inside an f-string: \<^verbatim>\<open>f"{v}"\<close>.\<close>

definition py_format :: "env \<Rightarrow> pyval \<Rightarrow> string" where
  "py_format e v =
     (case v of PStr s \<Rightarrow> s | PInt i \<Rightarrow> dec_int i | _ \<Rightarrow> container_str e v)"

text \<open>The calls made to the agents, in the order they happen.\<close>

datatype agent_call =
    Call_analyze_tone string
  | Call_research_topic string
  | Call_create_content pydict pydict string
  | Call_generate_image pyval string

section \<open>The workflow state\<close>

record WorkflowState =
  tone_sample :: string
  topic :: string
  language :: string
  tone_analysis :: pydict
  research_data :: pydict
  content_result :: pydict
  image_result :: pydict
  current_step :: string
  completed_steps :: "string list"
  errors :: "string list"
  status :: string

text \<open>
  A run threads the state and the log of agent calls.  Every state the workflow sees has
  all eleven keys, so the nodes' \<^verbatim>\<open>if "errors" not in state\<close> repairs never fire.
\<close>

type_synonym world = "WorkflowState \<times> agent_call list"

section \<open>The nodes of the workflow\<close>

definition analyze_tone :: "env \<Rightarrow> world \<Rightarrow> world" where
  "analyze_tone e w =
     (let state = (fst w)\<lparr>current_step := ''tone_analysis'', status := ''working''\<rparr>;
          calls = snd w @ [Call_analyze_tone (tone_sample state)]
      in case tone_agent_analyze_tone e (tone_sample state) of
           Returns tone_result \<Rightarrow>
             (let state = state\<lparr>tone_analysis := tone_result\<rparr>
              in case map_of tone_result ''error'' of
                   None \<Rightarrow>
                     (state\<lparr>completed_steps := completed_steps state @ [''tone_analysis'']\<rparr>,
                      calls)
                 | Some err \<Rightarrow>
                     (state\<lparr>errors := errors state
                        @ [''Tone analysis error: '' @ py_format e err]\<rparr>, calls))
         | Raises msg \<Rightarrow>
             (state\<lparr>errors := errors state @ [''Tone analysis failed: '' @ msg]\<rparr>, calls))"

definition research_topic :: "env \<Rightarrow> world \<Rightarrow> world" where
  "research_topic e w =
     (let state = (fst w)\<lparr>current_step := ''research'', status := ''working''\<rparr>;
          calls = snd w @ [Call_research_topic (topic state)]
      in case research_agent_research_topic e (topic state) of
           Returns research_result \<Rightarrow>
             (let state = state\<lparr>research_data := research_result\<rparr>
              in case map_of research_result ''error'' of
                   None \<Rightarrow>
                     (state\<lparr>completed_steps := completed_steps state @ [''research'']\<rparr>,
                      calls)
                 | Some err \<Rightarrow>
                     (state\<lparr>errors := errors state
                        @ [''Research error: '' @ py_format e err]\<rparr>, calls))
         | Raises msg \<Rightarrow>
             (state\<lparr>errors := errors state @ [''Research failed: '' @ msg]\<rparr>, calls))"

definition create_content :: "env \<Rightarrow> world \<Rightarrow> world" where
  "create_content e w =
     (let state = (fst w)\<lparr>current_step := ''content_creation'', status := ''working''\<rparr>;
          calls = snd w
            @ [Call_create_content (tone_analysis state) (research_data state) (topic state)]
      in case content_agent_create_content e
                (tone_analysis state) (research_data state) (topic state) of
           Returns content_result' \<Rightarrow>
             (let state = state\<lparr>content_result := content_result'\<rparr>
              in case map_of content_result' ''error'' of
                   None \<Rightarrow>
                     (state\<lparr>completed_steps :=
                        completed_steps state @ [''content_creation'']\<rparr>, calls)
                 | Some err \<Rightarrow>
                     (state\<lparr>errors := errors state
                        @ [''Content creation error: '' @ py_format e err]\<rparr>, calls))
         | Raises msg \<Rightarrow>
             (state\<lparr>errors := errors state @ [''Content creation failed: '' @ msg]\<rparr>,
              calls))"

definition generate_image :: "env \<Rightarrow> world \<Rightarrow> world" where
  "generate_image e w =
     (let state = (fst w)\<lparr>current_step := ''image_generation'', status := ''working''\<rparr>;
          post_content =
            (if content_result state \<noteq> [] then
               (case map_of (content_result state) ''post_content'' of
                  Some p \<Rightarrow> p
                | None \<Rightarrow> PStr [])
             else PStr []);
          calls = snd w @ [Call_generate_image post_content (topic state)]
      in case image_agent_generate_image e post_content (topic state) of
           Returns image_result' \<Rightarrow>
             (let state = state\<lparr>image_result := image_result'\<rparr>
              in case map_of image_result' ''error'' of
                   None \<Rightarrow>
                     (state\<lparr>completed_steps :=
                        completed_steps state @ [''image_generation'']\<rparr>, calls)
                 | Some err \<Rightarrow>
                     (state\<lparr>errors := errors state
                        @ [''Image generation error: '' @ py_format e err]\<rparr>, calls))
         | Raises msg \<Rightarrow>
             (state\<lparr>errors := errors state @ [''Image generation failed: '' @ msg]\<rparr>,
              calls))"

definition finalize_workflow :: "env \<Rightarrow> world \<Rightarrow> world" where
  "finalize_workflow e w =
     (let state = (fst w)\<lparr>current_step := ''completed''\<rparr>;
          error_count = length (errors state);
          completed_count = length (completed_steps state)
      in (if error_count = 0 \<and> completed_count = 4 then state\<lparr>status := ''completed''\<rparr>
          else if completed_count > 0 then state\<lparr>status := ''partially_completed''\<rparr>
          else state\<lparr>status := ''failed''\<rparr>,
          snd w))"

section \<open>The workflow graph\<close>

datatype node = N_analyze_tone | N_research_topic | N_create_content | N_generate_image
  | N_finalize

fun node_fn :: "node \<Rightarrow> env \<Rightarrow> world \<Rightarrow> world" where
  "node_fn N_analyze_tone = analyze_tone"
| "node_fn N_research_topic = research_topic"
| "node_fn N_create_content = create_content"
| "node_fn N_generate_image = generate_image"
| "node_fn N_finalize = finalize_workflow"

definition entry_point :: node where
  "entry_point = N_analyze_tone"

text \<open>The edges; \<open>None\<close> is \<^verbatim>\<open>END\<close>.\<close>

fun edge :: "node \<Rightarrow> node option" where
  "edge N_analyze_tone = Some N_research_topic"
| "edge N_research_topic = Some N_create_content"
| "edge N_create_content = Some N_generate_image"
| "edge N_generate_image = Some N_finalize"
| "edge N_finalize = None"

fun distance_to_end :: "node \<Rightarrow> nat" where
  "distance_to_end N_analyze_tone = 4"
| "distance_to_end N_research_topic = 3"
| "distance_to_end N_create_content = 2"
| "distance_to_end N_generate_image = 1"
| "distance_to_end N_finalize = 0"

lemma edge_decreases: "edge n = Some n' \<Longrightarrow> distance_to_end n' < distance_to_end n"
  by (cases n) auto

text \<open>Running the compiled graph from a node: run the node, follow its edge.\<close>

function invoke_from :: "env \<Rightarrow> node \<Rightarrow> world \<Rightarrow> world" where
  "invoke_from e n w =
     (case edge n of
        None \<Rightarrow> node_fn n e w
      | Some n' \<Rightarrow> invoke_from e n' (node_fn n e w))"
  by pat_completeness auto
termination
  by (relation "measure (\<lambda>(e, n, w). distance_to_end n)") (auto simp: edge_decreases)

text \<open>The states a run passes through: the world after each node, in order.\<close>

function states_from :: "env \<Rightarrow> node \<Rightarrow> world \<Rightarrow> world list" where
  "states_from e n w =
     (case edge n of
        None \<Rightarrow> [node_fn n e w]
      | Some n' \<Rightarrow> node_fn n e w # states_from e n' (node_fn n e w))"
  by pat_completeness auto
termination
  by (relation "measure (\<lambda>(e, n, w). distance_to_end n)") (auto simp: edge_decreases)

declare invoke_from.simps [simp del] states_from.simps [simp del]

definition workflow_invoke :: "env \<Rightarrow> world \<Rightarrow> world" where
  "workflow_invoke e w = invoke_from e entry_point w"

section \<open>Running the workflow\<close>

definition initial_state :: "string \<Rightarrow> string \<Rightarrow> string \<Rightarrow> WorkflowState" where
  "initial_state tone_sample' topic' language' =
     \<lparr>tone_sample = strip tone_sample', topic = strip topic', language = language',
      tone_analysis = [], research_data = [], content_result = [], image_result = [],
      current_step = ''start'', completed_steps = [], errors = [],
      status = ''starting''\<rparr>"

definition error_state :: "string \<Rightarrow> string \<Rightarrow> string \<Rightarrow> string \<Rightarrow> WorkflowState" where
  "error_state tone_sample' topic' language' error_msg =
     \<lparr>tone_sample = tone_sample', topic = topic', language = language',
      tone_analysis = [], research_data = [], content_result = [], image_result = [],
      current_step = ''error'', completed_steps = [], errors = [error_msg],
      status = ''error''\<rparr>"

text \<open>
  The body of the \<^verbatim>\<open>try\<close>: \<open>Raises\<close> is the exception that leaves it.  The agents of
  an \<open>env\<close> return or raise an \<^verbatim>\<open>Exception\<close>, which the nodes catch, so that on a
  valid request the body returns; \<open>run_workflow_esc\<close> below is the function for calls that
  may also raise outside \<^verbatim>\<open>Exception\<close>.
\<close>

definition run_workflow_body :: "env \<Rightarrow> string \<Rightarrow> string \<Rightarrow> string \<Rightarrow> world outcome" where
  "run_workflow_body e tone_sample' topic' language' =
     (if tone_sample' = [] \<or> length (strip tone_sample') < 10
      then Raises ''Tone sample must be at least 10 characters long''
      else if topic' = [] \<or> length (strip topic') < 3
      then Raises ''Topic must be at least 3 characters long''
      else Returns (workflow_invoke e (initial_state tone_sample' topic' language', [])))"

definition run_workflow :: "env \<Rightarrow> string \<Rightarrow> string \<Rightarrow> string \<Rightarrow> world" where
  "run_workflow e tone_sample' topic' language' =
     (case run_workflow_body e tone_sample' topic' language' of
        Returns final_state \<Rightarrow> final_state
      | Raises msg \<Rightarrow>
          (error_state tone_sample' topic' language'
             (''Workflow execution failed: '' @ msg), []))"

section \<open>Exceptions that no handler catches\<close>

text \<open>
  Every handler of the supervisor is \<^verbatim>\<open>except Exception\<close>: the four nodes and
  \<open>run_workflow\<close> catch what derives from \<^verbatim>\<open>Exception\<close>.  The nodes and \<open>run_workflow\<close>
  above describe agent calls that return or raise such an exception (\<open>Raises\<close>).  A call
  can also raise outside \<^verbatim>\<open>Exception\<close> (\<^verbatim>\<open>KeyboardInterrupt\<close>, \<^verbatim>\<open>SystemExit\<close>); then the
  exception leaves the node, the graph and \<open>run_workflow\<close>, and the state built so far
  is lost to the caller.  \<open>escapes\<close> says which calls do so, and with which exception; a
  run then ends by returning a state or by propagating the exception, after the calls
  made so far.
\<close>

type_synonym escapes = "agent_call \<Rightarrow> string option"

datatype 'a ending = Returned 'a | Propagated string "agent_call list"

definition analyze_tone_esc :: "escapes \<Rightarrow> env \<Rightarrow> world \<Rightarrow> world ending" where
  "analyze_tone_esc esc e w =
     (let state = (fst w)\<lparr>current_step := ''tone_analysis'', status := ''working''\<rparr>;
          call = Call_analyze_tone (tone_sample state)
      in case esc call of
           Some exc \<Rightarrow> Propagated exc (snd w @ [call])
         | None \<Rightarrow> Returned (analyze_tone e w))"

definition research_topic_esc :: "escapes \<Rightarrow> env \<Rightarrow> world \<Rightarrow> world ending" where
  "research_topic_esc esc e w =
     (let state = (fst w)\<lparr>current_step := ''research'', status := ''working''\<rparr>;
          call = Call_research_topic (topic state)
      in case esc call of
           Some exc \<Rightarrow> Propagated exc (snd w @ [call])
         | None \<Rightarrow> Returned (research_topic e w))"

definition create_content_esc :: "escapes \<Rightarrow> env \<Rightarrow> world \<Rightarrow> world ending" where
  "create_content_esc esc e w =
     (let state = (fst w)\<lparr>current_step := ''content_creation'', status := ''working''\<rparr>;
          call = Call_create_content (tone_analysis state) (research_data state) (topic state)
      in case esc call of
           Some exc \<Rightarrow> Propagated exc (snd w @ [call])
         | None \<Rightarrow> Returned (create_content e w))"

definition generate_image_esc :: "escapes \<Rightarrow> env \<Rightarrow> world \<Rightarrow> world ending" where
  "generate_image_esc esc e w =
     (let state = (fst w)\<lparr>current_step := ''image_generation'', status := ''working''\<rparr>;
          post_content =
            (if content_result state \<noteq> [] then
               (case map_of (content_result state) ''post_content'' of
                  Some p \<Rightarrow> p
                | None \<Rightarrow> PStr [])
             else PStr []);
          call = Call_generate_image post_content (topic state)
      in case esc call of
           Some exc \<Rightarrow> Propagated exc (snd w @ [call])
         | None \<Rightarrow> Returned (generate_image e w))"

fun node_fn_esc :: "node \<Rightarrow> escapes \<Rightarrow> env \<Rightarrow> world \<Rightarrow> world ending" where
  "node_fn_esc N_analyze_tone esc e w = analyze_tone_esc esc e w"
| "node_fn_esc N_research_topic esc e w = research_topic_esc esc e w"
| "node_fn_esc N_create_content esc e w = create_content_esc esc e w"
| "node_fn_esc N_generate_image esc e w = generate_image_esc esc e w"
| "node_fn_esc N_finalize esc e w = Returned (finalize_workflow e w)"

function invoke_from_esc :: "escapes \<Rightarrow> env \<Rightarrow> node \<Rightarrow> world \<Rightarrow> world ending" where
  "invoke_from_esc esc e n w =
     (case node_fn_esc n esc e w of
        Propagated exc calls \<Rightarrow> Propagated exc calls
      | Returned w' \<Rightarrow>
          (case edge n of
             None \<Rightarrow> Returned w'
           | Some n' \<Rightarrow> invoke_from_esc esc e n' w'))"
  by pat_completeness auto
termination
  by (relation "measure (\<lambda>(esc, e, n, w). distance_to_end n)") (auto simp: edge_decreases)

declare invoke_from_esc.simps [simp del]

definition run_workflow_esc ::
  "escapes \<Rightarrow> env \<Rightarrow> string \<Rightarrow> string \<Rightarrow> string \<Rightarrow> world ending" where
  "run_workflow_esc esc e tone_sample' topic' language' =
     (if tone_sample' = [] \<or> length (strip tone_sample') < 10
      then Returned
             (error_state tone_sample' topic' language'
                (''Workflow execution failed: ''
                   @ ''Tone sample must be at least 10 characters long''), [])
      else if topic' = [] \<or> length (strip topic') < 3
      then Returned
             (error_state tone_sample' topic' language'
                (''Workflow execution failed: ''
                   @ ''Topic must be at least 3 characters long''), [])
      else invoke_from_esc esc e entry_point (initial_state tone_sample' topic' language', []))"

definition no_escape :: escapes where
  "no_escape = (\<lambda>call. None)"

definition escapes_at :: "agent_call \<Rightarrow> string \<Rightarrow> escapes" where
  "escapes_at at exc = (\<lambda>call. if call = at then Some exc else None)"

section \<open>The status reporter\<close>

definition step_names :: "string list" where
  "step_names = [''tone_analysis'', ''research'', ''content_creation'', ''image_generation'']"

text \<open>\<^verbatim>\<open>for step in steps: if step in error.lower(): steps[step] = "error"; break\<close>\<close>

definition mark_error :: "(string \<times> string) list \<Rightarrow> string \<Rightarrow> (string \<times> string) list" where
  "mark_error steps error =
     (case find (\<lambda>step. str_contains (lower error) step) (map fst steps) of
        None \<Rightarrow> steps
      | Some step \<Rightarrow> dict_set step ''error'' steps)"

definition mark_completed :: "(string \<times> string) list \<Rightarrow> string \<Rightarrow> (string \<times> string) list" where
  "mark_completed steps step =
     (if map_of steps step \<noteq> None then dict_set step ''completed'' steps else steps)"

definition mark_current :: "(string \<times> string) list \<Rightarrow> string \<Rightarrow> (string \<times> string) list" where
  "mark_current steps current =
     (if map_of steps current \<noteq> None \<and> map_of steps current \<noteq> Some ''completed''
      then dict_set current ''working'' steps else steps)"

definition get_workflow_status :: "WorkflowState \<Rightarrow> (string \<times> string) list" where
  "get_workflow_status state =
     (let steps = map (\<lambda>step. (step, ''waiting'')) step_names;
          steps = foldl mark_completed steps (completed_steps state);
          steps = mark_current steps (current_step state)
      in foldl mark_error steps (errors state))"

section \<open>Reading a stage call\<close>

text \<open>
  What one stage call contributes to the state, read off its outcome: a stage succeeds
  when its agent returns a dictionary without the key \<^verbatim>\<open>"error"\<close>.
\<close>

definition stage_ok :: "pydict outcome \<Rightarrow> bool" where
  "stage_ok r = (case r of Returns d \<Rightarrow> map_of d ''error'' = None | Raises msg \<Rightarrow> False)"

definition stage_completed :: "string \<Rightarrow> pydict outcome \<Rightarrow> string list" where
  "stage_completed name r = (if stage_ok r then [name] else [])"

definition stage_errors :: "env \<Rightarrow> string \<Rightarrow> pydict outcome \<Rightarrow> string list" where
  "stage_errors e label r =
     (case r of
        Returns d \<Rightarrow>
          (case map_of d ''error'' of
             None \<Rightarrow> []
           | Some err \<Rightarrow> [label @ '' error: '' @ py_format e err])
      | Raises msg \<Rightarrow> [label @ '' failed: '' @ msg])"

definition stage_payload :: "pydict \<Rightarrow> pydict outcome \<Rightarrow> pydict" where
  "stage_payload old r = (case r of Returns d \<Rightarrow> d | Raises msg \<Rightarrow> old)"

text \<open>One entry more in one of the two lists: a name in the completed steps, or one
  message in the errors.\<close>

definition adds_one_entry :: "string \<Rightarrow> WorkflowState \<Rightarrow> WorkflowState \<Rightarrow> bool" where
  "adds_one_entry name before after =
     ((completed_steps after = completed_steps before @ [name] \<and>
       errors after = errors before) \<or>
      (completed_steps after = completed_steps before \<and>
       errors after \<noteq> [] \<and> butlast (errors after) = errors before))"

text \<open>
  The same, tied to the outcome \<open>r\<close> of the stage's call: on success the stage's name
  goes to the completed steps and the errors stay; on failure (an \<^verbatim>\<open>"error"\<close> key in the
  returned dictionary, or an exception) the completed steps stay and the one message
  goes to the errors.
\<close>

definition records_outcome ::
  "env \<Rightarrow> string \<Rightarrow> string \<Rightarrow> pydict outcome \<Rightarrow> WorkflowState \<Rightarrow> WorkflowState \<Rightarrow> bool" where
  "records_outcome e name label r before after =
     (case r of
        Returns d \<Rightarrow>
          (case map_of d ''error'' of
             None \<Rightarrow>
               completed_steps after = completed_steps before @ [name] \<and>
               errors after = errors before
           | Some err \<Rightarrow>
               completed_steps after = completed_steps before \<and>
               errors after = errors before @ [label @ '' error: '' @ py_format e err])
      | Raises msg \<Rightarrow>
          completed_steps after = completed_steps before \<and>
          errors after = errors before @ [label @ '' failed: '' @ msg])"

text \<open>Agents that answer with fixed outcomes, for running the model on examples.\<close>

definition scripted_env ::
  "pydict outcome \<Rightarrow> pydict outcome \<Rightarrow> pydict outcome \<Rightarrow> pydict outcome \<Rightarrow> env" where
  "scripted_env r1 r2 r3 r4 =
     \<lparr>container_str = (\<lambda>v. []),
      tone_agent_analyze_tone = (\<lambda>tone_sample'. r1),
      research_agent_research_topic = (\<lambda>topic'. r2),
      content_agent_create_content = (\<lambda>tone research topic'. r3),
      image_agent_generate_image = (\<lambda>post topic'. r4)\<rparr>"

section \<open>The nodes, one equation each\<close>

lemmas stage_defs = stage_ok_def stage_completed_def stage_errors_def stage_payload_def

lemma analyze_tone_eq:
  "analyze_tone e w =
     (let r = tone_agent_analyze_tone e (tone_sample (fst w))
      in ((fst w)\<lparr>current_step := ''tone_analysis'', status := ''working'',
            tone_analysis := stage_payload (tone_analysis (fst w)) r,
            completed_steps := completed_steps (fst w) @ stage_completed ''tone_analysis'' r,
            errors := errors (fst w) @ stage_errors e ''Tone analysis'' r\<rparr>,
          snd w @ [Call_analyze_tone (tone_sample (fst w))]))"
  by (simp add: analyze_tone_def stage_defs Let_def split: outcome.splits option.splits)

lemma research_topic_eq:
  "research_topic e w =
     (let r = research_agent_research_topic e (topic (fst w))
      in ((fst w)\<lparr>current_step := ''research'', status := ''working'',
            research_data := stage_payload (research_data (fst w)) r,
            completed_steps := completed_steps (fst w) @ stage_completed ''research'' r,
            errors := errors (fst w) @ stage_errors e ''Research'' r\<rparr>,
          snd w @ [Call_research_topic (topic (fst w))]))"
  by (simp add: research_topic_def stage_defs Let_def split: outcome.splits option.splits)

lemma create_content_eq:
  "create_content e w =
     (let r = content_agent_create_content e
                (tone_analysis (fst w)) (research_data (fst w)) (topic (fst w))
      in ((fst w)\<lparr>current_step := ''content_creation'', status := ''working'',
            content_result := stage_payload (content_result (fst w)) r,
            completed_steps := completed_steps (fst w) @ stage_completed ''content_creation'' r,
            errors := errors (fst w) @ stage_errors e ''Content creation'' r\<rparr>,
          snd w @ [Call_create_content
                     (tone_analysis (fst w)) (research_data (fst w)) (topic (fst w))]))"
  by (simp add: create_content_def stage_defs Let_def split: outcome.splits option.splits)

lemma generate_image_eq:
  "generate_image e w =
     (let p = dict_get (content_result (fst w)) ''post_content'' (PStr []);
          r = image_agent_generate_image e p (topic (fst w))
      in ((fst w)\<lparr>current_step := ''image_generation'', status := ''working'',
            image_result := stage_payload (image_result (fst w)) r,
            completed_steps := completed_steps (fst w) @ stage_completed ''image_generation'' r,
            errors := errors (fst w) @ stage_errors e ''Image generation'' r\<rparr>,
          snd w @ [Call_generate_image p (topic (fst w))]))"
  by (simp add: generate_image_def stage_defs dict_get_def Let_def
      split: outcome.splits option.splits)

lemma workflow_invoke_unfold:
  "workflow_invoke e w =
     finalize_workflow e (generate_image e (create_content e (research_topic e
       (analyze_tone e w))))"
  by (simp add: workflow_invoke_def entry_point_def invoke_from.simps)

lemma states_from_unfold:
  "states_from e entry_point w =
     (let w1 = analyze_tone e w; w2 = research_topic e w1; w3 = create_content e w2;
          w4 = generate_image e w3
      in [w1, w2, w3, w4, finalize_workflow e w4])"
  by (simp add: entry_point_def states_from.simps Let_def)

lemma stage_cases:
  "(stage_completed n r = [n] \<and> stage_errors e l r = []) \<or>
   (stage_completed n r = [] \<and> (\<exists>m. stage_errors e l r = [m]))"
  by (simp add: stage_defs split: outcome.splits option.splits)

lemma strip_Nil: "strip [] = []"
  by (simp add: strip_def)

lemma run_workflow_valid:
  assumes "10 \<le> length (strip ts)" and "3 \<le> length (strip tp)"
  shows "run_workflow_body e ts tp lang =
           Returns (workflow_invoke e (initial_state ts tp lang, []))"
    and "run_workflow e ts tp lang = workflow_invoke e (initial_state ts tp lang, [])"
  using assms by (auto simp: run_workflow_def run_workflow_body_def strip_Nil)

lemma workflow_invoke_initial:
  "workflow_invoke e (initial_state ts tp lang, []) =
     (let r1 = tone_agent_analyze_tone e (strip ts);
          r2 = research_agent_research_topic e (strip tp);
          r3 = content_agent_create_content e
                 (stage_payload [] r1) (stage_payload [] r2) (strip tp);
          p = dict_get (stage_payload [] r3) ''post_content'' (PStr []);
          r4 = image_agent_generate_image e p (strip tp);
          completed = stage_completed ''tone_analysis'' r1 @ stage_completed ''research'' r2
            @ stage_completed ''content_creation'' r3
            @ stage_completed ''image_generation'' r4;
          errs = stage_errors e ''Tone analysis'' r1 @ stage_errors e ''Research'' r2
            @ stage_errors e ''Content creation'' r3
            @ stage_errors e ''Image generation'' r4
      in (\<lparr>tone_sample = strip ts, topic = strip tp, language = lang,
           tone_analysis = stage_payload [] r1, research_data = stage_payload [] r2,
           content_result = stage_payload [] r3, image_result = stage_payload [] r4,
           current_step = ''completed'', completed_steps = completed, errors = errs,
           status =
             (if length errs = 0 \<and> length completed = 4 then ''completed''
              else if length completed > 0 then ''partially_completed''
              else ''failed'')\<rparr>,
          [Call_analyze_tone (strip ts), Call_research_topic (strip tp),
           Call_create_content (stage_payload [] r1) (stage_payload [] r2) (strip tp),
           Call_generate_image p (strip tp)]))"
  by (simp add: workflow_invoke_unfold analyze_tone_eq research_topic_eq create_content_eq
      generate_image_eq finalize_workflow_def initial_state_def Let_def)

lemma four_stage_lists:
  assumes "(c1 = [n1] \<and> e1 = []) \<or> (c1 = [] \<and> (\<exists>m. e1 = [m]))"
    and "(c2 = [n2] \<and> e2 = []) \<or> (c2 = [] \<and> (\<exists>m. e2 = [m]))"
    and "(c3 = [n3] \<and> e3 = []) \<or> (c3 = [] \<and> (\<exists>m. e3 = [m]))"
    and "(c4 = [n4] \<and> e4 = []) \<or> (c4 = [] \<and> (\<exists>m. e4 = [m]))"
  shows "length (c1 @ c2 @ c3 @ c4) + length (e1 @ e2 @ e3 @ e4) = 4"
    and "e1 @ e2 @ e3 @ e4 = [] \<Longrightarrow> c1 @ c2 @ c3 @ c4 = [n1, n2, n3, n4]"
    and "distinct [n1, n2, n3, n4] \<Longrightarrow> distinct (c1 @ c2 @ c3 @ c4)"
    and "set (c1 @ c2 @ c3 @ c4) \<subseteq> set [n1, n2, n3, n4]"
  using assms by auto

section \<open>Facts about a run\<close>

lemma run_workflow_invalid:
  assumes "length (strip ts) < 10 \<or> length (strip tp) < 3"
  defines "msg \<equiv> (if length (strip ts) < 10
               then ''Tone sample must be at least 10 characters long''
               else ''Topic must be at least 3 characters long'')"
  shows "run_workflow_body e ts tp lang = Raises msg"
    and "run_workflow e ts tp lang =
           (error_state ts tp lang (''Workflow execution failed: '' @ msg), [])"
proof -
  show b: "run_workflow_body e ts tp lang = Raises msg"
  proof (cases "length (strip ts) < 10")
    case True
    then show ?thesis
      by (simp add: run_workflow_body_def msg_def)
  next
    case False
    then have "ts \<noteq> []"
      by (auto simp: strip_Nil)
    moreover from False assms have "length (strip tp) < 3"
      by simp
    ultimately show ?thesis
      using False by (simp add: run_workflow_body_def msg_def)
  qed
  show "run_workflow e ts tp lang =
           (error_state ts tp lang (''Workflow execution failed: '' @ msg), [])"
    by (simp add: run_workflow_def b)
qed

lemma stage_raises:
  "stage_completed n (Raises m) = []" "stage_errors e l (Raises m) = [l @ '' failed: '' @ m]"
  "stage_payload old (Raises m) = old"
  by (simp_all add: stage_defs)

lemma not_in_stage_completed: "n \<noteq> n' \<Longrightarrow> n \<notin> set (stage_completed n' r)"
  by (simp add: stage_completed_def)

lemma run_fields:
  fixes e :: env and ts tp lang :: string
  assumes "10 \<le> length (strip ts)" and "3 \<le> length (strip tp)"
  defines "w \<equiv> run_workflow e ts tp lang"
  defines "s \<equiv> fst w"
  defines "r1 \<equiv> tone_agent_analyze_tone e (strip ts)"
  defines "r2 \<equiv> research_agent_research_topic e (strip tp)"
  defines "r3 \<equiv> content_agent_create_content e (tone_analysis s) (research_data s) (strip tp)"
  defines "post \<equiv> dict_get (content_result s) ''post_content'' (PStr [])"
  defines "r4 \<equiv> image_agent_generate_image e post (strip tp)"
  shows "tone_analysis s = stage_payload [] r1"
    and "research_data s = stage_payload [] r2"
    and "content_result s = stage_payload [] r3"
    and "image_result s = stage_payload [] r4"
    and "completed_steps s =
           stage_completed ''tone_analysis'' r1 @ stage_completed ''research'' r2
           @ stage_completed ''content_creation'' r3
           @ stage_completed ''image_generation'' r4"
    and "errors s =
           stage_errors e ''Tone analysis'' r1 @ stage_errors e ''Research'' r2
           @ stage_errors e ''Content creation'' r3
           @ stage_errors e ''Image generation'' r4"
    and "snd w =
           [Call_analyze_tone (strip ts), Call_research_topic (strip tp),
            Call_create_content (tone_analysis s) (research_data s) (strip tp),
            Call_generate_image post (strip tp)]"
    and "current_step s = ''completed''"
    and "status s =
           (if length (errors s) = 0 \<and> length (completed_steps s) = 4 then ''completed''
            else if length (completed_steps s) > 0 then ''partially_completed''
            else ''failed'')"
  unfolding r4_def post_def r3_def r2_def r1_def s_def w_def
    run_workflow_valid(2) [OF assms(1,2)] workflow_invoke_initial Let_def
  by (simp_all only: fst_conv snd_conv WorkflowState.simps simp_thms)

lemma run_lists:
  fixes e :: env and ts tp lang :: string
  assumes "10 \<le> length (strip ts)" and "3 \<le> length (strip tp)"
  defines "s \<equiv> fst (run_workflow e ts tp lang)"
  shows "length (completed_steps s) + length (errors s) = 4"
    and "errors s = [] \<Longrightarrow> completed_steps s = step_names"
    and "distinct (completed_steps s)"
    and "set (completed_steps s) \<subseteq> set step_names"
    and "current_step s = ''completed''"
    and "status s =
           (if length (errors s) = 0 \<and> length (completed_steps s) = 4 then ''completed''
            else if length (completed_steps s) > 0 then ''partially_completed''
            else ''failed'')"
proof -
  note F = run_fields [OF assms(1,2), of e lang, folded s_def]
  note K = stage_cases stage_cases stage_cases stage_cases
  have d: "distinct [''tone_analysis'', ''research'', ''content_creation'', ''image_generation'']"
    by simp
  show "length (completed_steps s) + length (errors s) = 4"
    unfolding F(5) F(6) by (rule four_stage_lists(1) [OF K])
  show "errors s = [] \<Longrightarrow> completed_steps s = step_names"
    unfolding F(5) F(6) step_names_def by (rule four_stage_lists(2) [OF K])
  show "distinct (completed_steps s)"
    unfolding F(5) by (rule four_stage_lists(3) [OF K d])
  show "set (completed_steps s) \<subseteq> set step_names"
    unfolding F(5) step_names_def by (rule four_stage_lists(4) [OF K])
  show "current_step s = ''completed''" by (rule F(8))
  show "status s =
           (if length (errors s) = 0 \<and> length (completed_steps s) = 4 then ''completed''
            else if length (completed_steps s) > 0 then ''partially_completed''
            else ''failed'')"
    by (rule F(9))
qed

lemma adds_one_entryI:
  assumes "(c = [n] \<and> er = []) \<or> (c = [] \<and> (\<exists>m. er = [m]))"
    and "completed_steps b = completed_steps a @ c" and "errors b = errors a @ er"
  shows "adds_one_entry n a b"
  using assms by (auto simp: adds_one_entry_def)

lemma analyze_tone_adds: "adds_one_entry ''tone_analysis'' (fst w) (fst (analyze_tone e w))"
  by (rule adds_one_entryI [OF stage_cases
        [of "''tone_analysis''" "tone_agent_analyze_tone e (tone_sample (fst w))" e
            "''Tone analysis''"]])
     (simp_all add: analyze_tone_eq Let_def)

lemma research_topic_adds: "adds_one_entry ''research'' (fst w) (fst (research_topic e w))"
  by (rule adds_one_entryI [OF stage_cases
        [of "''research''" "research_agent_research_topic e (topic (fst w))" e "''Research''"]])
     (simp_all add: research_topic_eq Let_def)

lemma create_content_adds:
  "adds_one_entry ''content_creation'' (fst w) (fst (create_content e w))"
  by (rule adds_one_entryI [OF stage_cases
        [of "''content_creation''"
            "content_agent_create_content e
               (tone_analysis (fst w)) (research_data (fst w)) (topic (fst w))" e
            "''Content creation''"]])
     (simp_all add: create_content_eq Let_def)

lemma generate_image_adds:
  "adds_one_entry ''image_generation'' (fst w) (fst (generate_image e w))"
  by (rule adds_one_entryI [OF stage_cases
        [of "''image_generation''"
            "image_agent_generate_image e
               (dict_get (content_result (fst w)) ''post_content'' (PStr [])) (topic (fst w))" e
            "''Image generation''"]])
     (simp_all add: generate_image_eq Let_def)

lemma records_outcome_adds:
  "records_outcome e n l r a b \<Longrightarrow> adds_one_entry n a b"
  by (auto simp: records_outcome_def adds_one_entry_def split: outcome.splits option.splits)

lemma analyze_tone_records:
  "records_outcome e ''tone_analysis'' ''Tone analysis''
     (tone_agent_analyze_tone e (tone_sample (fst w))) (fst w) (fst (analyze_tone e w))"
  by (simp add: records_outcome_def analyze_tone_eq Let_def stage_defs
      split: outcome.splits option.splits)

lemma research_topic_records:
  "records_outcome e ''research'' ''Research''
     (research_agent_research_topic e (topic (fst w))) (fst w) (fst (research_topic e w))"
  by (simp add: records_outcome_def research_topic_eq Let_def stage_defs
      split: outcome.splits option.splits)

lemma create_content_records:
  "records_outcome e ''content_creation'' ''Content creation''
     (content_agent_create_content e
        (tone_analysis (fst w)) (research_data (fst w)) (topic (fst w)))
     (fst w) (fst (create_content e w))"
  by (simp add: records_outcome_def create_content_eq Let_def stage_defs
      split: outcome.splits option.splits)

lemma generate_image_records:
  "records_outcome e ''image_generation'' ''Image generation''
     (image_agent_generate_image e
        (dict_get (content_result (fst w)) ''post_content'' (PStr [])) (topic (fst w)))
     (fst w) (fst (generate_image e w))"
  by (simp add: records_outcome_def generate_image_eq Let_def stage_defs
      split: outcome.splits option.splits)

lemma finalize_workflow_lists:
  "completed_steps (fst (finalize_workflow e w)) = completed_steps (fst w)"
  "errors (fst (finalize_workflow e w)) = errors (fst w)"
  by (simp_all add: finalize_workflow_def Let_def)

lemma adds_one_entry_inv:
  assumes "adds_one_entry n a b"
    and "length (completed_steps a) + length (errors a) = k"
    and "set (completed_steps a) \<subseteq> A" and "distinct (completed_steps a)" and "n \<notin> A"
  shows "length (completed_steps b) + length (errors b) = Suc k \<and>
         set (completed_steps b) \<subseteq> insert n A \<and> distinct (completed_steps b)"
proof -
  from assms(1) consider
    (ok) "completed_steps b = completed_steps a @ [n]" "errors b = errors a"
  | (err) "completed_steps b = completed_steps a" "errors b \<noteq> []"
        "butlast (errors b) = errors a"
    unfolding adds_one_entry_def by blast
  then show ?thesis
  proof cases
    case ok
    with assms(2-5) show ?thesis by auto
  next
    case err
    from err(2,3) have "length (errors b) = Suc (length (errors a))"
      by (cases "errors b" rule: rev_cases) auto
    with err(1) assms(2-5) show ?thesis by auto
  qed
qed

lemma four_records:
  assumes r: "adds_one_entry n1 s0 s1" "adds_one_entry n2 s1 s2"
      "adds_one_entry n3 s2 s3" "adds_one_entry n4 s3 s4"
    and i: "completed_steps s0 = []" "errors s0 = []"
    and d: "distinct [n1, n2, n3, n4]"
  shows "\<forall>s \<in> set [s0, s1, s2, s3, s4].
           length (completed_steps s) + length (errors s) \<le> 4 \<and> distinct (completed_steps s)"
proof -
  from i have p0: "length (completed_steps s0) + length (errors s0) = 0"
    "set (completed_steps s0) \<subseteq> {}" "distinct (completed_steps s0)"
    by simp_all
  have m: "n1 \<notin> {}" "n2 \<notin> {n1}" "n3 \<notin> {n2, n1}" "n4 \<notin> {n3, n2, n1}"
    using d by auto
  note p1 = adds_one_entry_inv [OF r(1) p0 m(1)]
  note p2 = adds_one_entry_inv [OF r(2) p1 [THEN conjunct1] p1 [THEN conjunct2, THEN conjunct1]
      p1 [THEN conjunct2, THEN conjunct2] m(2)]
  note p3 = adds_one_entry_inv [OF r(3) p2 [THEN conjunct1] p2 [THEN conjunct2, THEN conjunct1]
      p2 [THEN conjunct2, THEN conjunct2] m(3)]
  note p4 = adds_one_entry_inv [OF r(4) p3 [THEN conjunct1] p3 [THEN conjunct2, THEN conjunct1]
      p3 [THEN conjunct2, THEN conjunct2] m(4)]
  from p0 p1 p2 p3 p4 show ?thesis
    by simp
qed

lemma invoke_from_esc_unfold:
  "invoke_from_esc esc e entry_point w =
     (case analyze_tone_esc esc e w of
        Propagated x c \<Rightarrow> Propagated x c
      | Returned w1 \<Rightarrow>
     (case research_topic_esc esc e w1 of
        Propagated x c \<Rightarrow> Propagated x c
      | Returned w2 \<Rightarrow>
     (case create_content_esc esc e w2 of
        Propagated x c \<Rightarrow> Propagated x c
      | Returned w3 \<Rightarrow>
     (case generate_image_esc esc e w3 of
        Propagated x c \<Rightarrow> Propagated x c
      | Returned w4 \<Rightarrow> Returned (finalize_workflow e w4)))))"
  by (simp add: entry_point_def invoke_from_esc.simps split: ending.splits)

lemma post_content_dict_get:
  "(if d \<noteq> [] then (case map_of d ''post_content'' of Some p \<Rightarrow> p | None \<Rightarrow> PStr [])
    else PStr []) = dict_get d ''post_content'' (PStr [])"
  by (simp add: dict_get_def)

lemma run_workflow_esc_valid:
  fixes e :: env and ts tp lang :: string and esc :: escapes
  assumes "10 \<le> length (strip ts)" and "3 \<le> length (strip tp)"
  defines "w \<equiv> run_workflow e ts tp lang"
  defines "s \<equiv> fst w"
  defines "c1 \<equiv> Call_analyze_tone (strip ts)"
  defines "c2 \<equiv> Call_research_topic (strip tp)"
  defines "c3 \<equiv> Call_create_content (tone_analysis s) (research_data s) (strip tp)"
  defines "c4 \<equiv> Call_generate_image
                   (dict_get (content_result s) ''post_content'' (PStr [])) (strip tp)"
  shows "run_workflow_esc esc e ts tp lang =
     (case esc c1 of
        Some x \<Rightarrow> Propagated x [c1]
      | None \<Rightarrow>
     (case esc c2 of
        Some x \<Rightarrow> Propagated x [c1, c2]
      | None \<Rightarrow>
     (case esc c3 of
        Some x \<Rightarrow> Propagated x [c1, c2, c3]
      | None \<Rightarrow>
     (case esc c4 of
        Some x \<Rightarrow> Propagated x [c1, c2, c3, c4]
      | None \<Rightarrow> Returned w))))"
proof -
  note F = run_fields [OF assms(1,2), of e lang, folded w_def, folded s_def]
  define w0 :: world where "w0 = (initial_state ts tp lang, [])"
  define w1 where "w1 = analyze_tone e w0"
  define w2 where "w2 = research_topic e w1"
  define w3 where "w3 = create_content e w2"
  define w4 where "w4 = generate_image e w3"
  have ne: "ts \<noteq> []" "tp \<noteq> []"
    using assms(1,2) by (auto simp: strip_Nil)
  have run: "run_workflow_esc esc e ts tp lang = invoke_from_esc esc e entry_point w0"
    using assms(1,2) ne by (simp add: run_workflow_esc_def w0_def)
  have w: "w = finalize_workflow e w4"
    unfolding w_def run_workflow_valid(2) [OF assms(1,2)] workflow_invoke_unfold
      w4_def w3_def w2_def w1_def w0_def by (rule refl)
  have a0: "tone_sample (fst w0) = strip ts" "snd w0 = []"
    by (simp_all add: w0_def initial_state_def)
  have a1: "topic (fst w1) = strip tp" "snd w1 = [c1]"
    by (simp_all add: w1_def analyze_tone_eq Let_def a0 c1_def w0_def initial_state_def)
  have a2: "topic (fst w2) = strip tp" "snd w2 = [c1, c2]"
    by (simp_all add: w2_def research_topic_eq Let_def a1 c2_def)
  have t2: "tone_analysis (fst w2) = tone_analysis s" "research_data (fst w2) = research_data s"
    unfolding F(1) F(2)
    by (simp_all add: w2_def w1_def research_topic_eq analyze_tone_eq Let_def w0_def
        initial_state_def)
  have a3: "topic (fst w3) = strip tp" "snd w3 = [c1, c2, c3]"
    by (simp_all add: w3_def create_content_eq Let_def a2 t2 c3_def)
  have cr2: "content_result (fst w2) = []"
    by (simp add: w2_def w1_def research_topic_eq analyze_tone_eq Let_def w0_def
        initial_state_def)
  have t3: "content_result (fst w3) = content_result s"
    unfolding F(3) by (simp add: w3_def create_content_eq Let_def t2 a2 cr2)
  have n1: "analyze_tone_esc esc e w0 =
      (case esc c1 of Some x \<Rightarrow> Propagated x [c1] | None \<Rightarrow> Returned w1)"
    by (simp add: analyze_tone_esc_def Let_def a0 c1_def w1_def split: option.splits)
  have n2: "research_topic_esc esc e w1 =
      (case esc c2 of Some x \<Rightarrow> Propagated x [c1, c2] | None \<Rightarrow> Returned w2)"
    by (simp add: research_topic_esc_def Let_def a1 c2_def w2_def split: option.splits)
  have n3: "create_content_esc esc e w2 =
      (case esc c3 of Some x \<Rightarrow> Propagated x [c1, c2, c3] | None \<Rightarrow> Returned w3)"
    by (simp add: create_content_esc_def Let_def a2 t2 c3_def w3_def split: option.splits)
  have n4: "generate_image_esc esc e w3 =
      (case esc c4 of Some x \<Rightarrow> Propagated x [c1, c2, c3, c4] | None \<Rightarrow> Returned w4)"
    by (simp add: generate_image_esc_def Let_def post_content_dict_get a3 t3 c4_def w4_def
        split: option.splits)
  show ?thesis
    unfolding run invoke_from_esc_unfold n1
    by (simp add: n2 n3 n4 w split: option.splits)
qed

section \<open>The derived final status\<close>

text \<open>
  C1.  A run that passes validation reaches \<open>finalize_workflow\<close> after the four stage
  nodes.  Its final status is \<^verbatim>\<open>"completed"\<close> when the error list is empty and all four
  stage names are among the completed steps, otherwise \<^verbatim>\<open>"partially_completed"\<close> when some
  step completed, otherwise \<^verbatim>\<open>"failed"\<close>; in particular the status is \<^verbatim>\<open>"completed"\<close>
  exactly when there are no errors and all four stage names are completed.
\<close>

theorem final_status_derivation:
  assumes "10 \<le> length (strip ts)" and "3 \<le> length (strip tp)"
  shows "let s = fst (run_workflow e ts tp lang) in
           status s =
             (if errors s = [] \<and> set step_names \<subseteq> set (completed_steps s) then ''completed''
              else if completed_steps s \<noteq> [] then ''partially_completed''
              else ''failed'')
           \<and> ((status s = ''completed'') =
                (errors s = [] \<and> set step_names \<subseteq> set (completed_steps s)))"
proof -
  define s where "s = fst (run_workflow e ts tp lang)"
  note L = run_lists [OF assms, of e lang, folded s_def]
  have a: "(errors s = [] \<and> set step_names \<subseteq> set (completed_steps s)) = (errors s = [])"
    using L(2) by auto
  have b: "(length (errors s) = 0 \<and> length (completed_steps s) = 4) = (errors s = [])"
    using L(1) by auto
  have st: "status s =
           (if errors s = [] then ''completed''
            else if completed_steps s \<noteq> [] then ''partially_completed''
            else ''failed'')"
    using L(6) unfolding b by simp
  have ne: "''partially_completed'' \<noteq> ''completed''" "''failed'' \<noteq> ''completed''"
    by simp_all
  have "status s =
             (if errors s = [] \<and> set step_names \<subseteq> set (completed_steps s) then ''completed''
              else if completed_steps s \<noteq> [] then ''partially_completed''
              else ''failed'')"
    unfolding a by (rule st)
  moreover have "(status s = ''completed'') =
                (errors s = [] \<and> set step_names \<subseteq> set (completed_steps s))"
    unfolding a st by simp
  ultimately show ?thesis
    unfolding s_def [symmetric] Let_def by (rule conjI)
qed

theorem final_status_derivation_witness:
  "10 \<le> length (strip ''I write plainly.'') \<and> 3 \<le> length (strip ''remote work'') \<and>
   status (fst (run_workflow
           (scripted_env (Returns [(''error'', PStr ''boom'')])
              (Returns [(''topic'', PStr ''remote work'')])
              (Returns [(''post_content'', PStr ''hello'')])
              (Raises ''quota''))
           ''I write plainly.'' ''remote work'' ''en'')) = ''partially_completed''"
proof -
  have h1: "10 \<le> length (strip ''I write plainly.'')" by code_simp
  have h2: "3 \<le> length (strip ''remote work'')" by code_simp
  define s where "s = fst (run_workflow
           (scripted_env (Returns [(''error'', PStr ''boom'')])
              (Returns [(''topic'', PStr ''remote work'')])
              (Returns [(''post_content'', PStr ''hello'')])
              (Raises ''quota''))
           ''I write plainly.'' ''remote work'' ''en'')"
  have er: "errors s = [''Tone analysis error: boom'', ''Image generation failed: quota'']"
    unfolding s_def by code_simp
  have co: "completed_steps s = [''research'', ''content_creation'']"
    unfolding s_def by code_simp
  from final_status_derivation [OF h1 h2, of "scripted_env (Returns [(''error'', PStr ''boom'')])
              (Returns [(''topic'', PStr ''remote work'')])
              (Returns [(''post_content'', PStr ''hello'')])
              (Raises ''quota'')" "''en''", folded s_def]
  have "status s = ''partially_completed''"
    unfolding Let_def er co by simp
  then show ?thesis using h1 h2 unfolding s_def by (intro conjI)
qed

section \<open>Requests that fail validation\<close>

text \<open>
  C2.  When the trimmed tone sample has fewer than 10 characters or the trimmed topic has
  fewer than 3, \<open>run_workflow\<close> returns at once: no agent is called, the four result
  fields and the completed steps are empty, the status and the current step are
  \<^verbatim>\<open>"error"\<close>, and the error list holds exactly one validation message.  The exception
  raised in the body is caught there and does not reach the caller.
\<close>

theorem invalid_request_returns_error_state:
  assumes "length (strip ts) < 10 \<or> length (strip tp) < 3"
  shows "(\<exists>msg. run_workflow_body e ts tp lang = Raises msg) \<and>
         snd (run_workflow e ts tp lang) = [] \<and>
         (let s = fst (run_workflow e ts tp lang) in
            tone_analysis s = [] \<and> research_data s = [] \<and> content_result s = [] \<and>
            image_result s = [] \<and> completed_steps s = [] \<and>
            current_step s = ''error'' \<and> status s = ''error'' \<and>
            errors s =
              [if length (strip ts) < 10
               then ''Workflow execution failed: Tone sample must be at least 10 characters long''
               else ''Workflow execution failed: Topic must be at least 3 characters long''])"
  using run_workflow_invalid [OF assms, of e lang]
  by (simp add: error_state_def)

theorem invalid_request_returns_error_state_witness:
  "length (strip ''  hey  '') < 10 \<and>
   run_workflow (scripted_env (Returns []) (Returns []) (Returns []) (Returns []))
     ''  hey  '' ''remote work'' ''en'' =
   (\<lparr>tone_sample = ''  hey  '', topic = ''remote work'', language = ''en'',
      tone_analysis = [], research_data = [], content_result = [], image_result = [],
      current_step = ''error'', completed_steps = [],
      errors =
        [''Workflow execution failed: Tone sample must be at least 10 characters long''],
      status = ''error''\<rparr>, [])"
proof -
  have h: "length (strip ''  hey  '') < 10" by code_simp
  define w where "w = run_workflow (scripted_env (Returns []) (Returns []) (Returns []) (Returns []))
     ''  hey  '' ''remote work'' ''en''"
  have ts: "tone_sample (fst w) = ''  hey  ''" and tp: "topic (fst w) = ''remote work''"
    and la: "language (fst w) = ''en''"
    unfolding w_def by code_simp+
  from invalid_request_returns_error_state [OF disjI1 [OF h],
      of "scripted_env (Returns []) (Returns []) (Returns []) (Returns [])"
         "''remote work''" "''en''", folded w_def]
  have "snd w = []" and "tone_analysis (fst w) = [] \<and> research_data (fst w) = [] \<and>
      content_result (fst w) = [] \<and>
            image_result (fst w) = [] \<and> completed_steps (fst w) = [] \<and>
            current_step (fst w) = ''error'' \<and> status (fst w) = ''error'' \<and>
            errors (fst w) =
        [''Workflow execution failed: Tone sample must be at least 10 characters long'']"
    using h unfolding Let_def by simp_all
  with ts tp la have "w = (\<lparr>tone_sample = ''  hey  '', topic = ''remote work'', language = ''en'',
      tone_analysis = [], research_data = [], content_result = [], image_result = [],
      current_step = ''error'', completed_steps = [],
      errors =
        [''Workflow execution failed: Tone sample must be at least 10 characters long''],
      status = ''error''\<rparr>, [])"
    by (cases w) (simp add: WorkflowState.equality)
  with h show ?thesis unfolding w_def by (intro conjI)
qed

section \<open>Stage order and graceful degradation\<close>

text \<open>
  C3.  On a valid request the four agents are called exactly once each, in the order tone
  analysis, research, content creation, image generation, whatever the earlier stages
  gave back: the call log of the run is these four calls.  Whether a stage's name enters
  the completed steps depends on the outcome of its own call only, so after a failed
  tone stage the three later stages still run and can still succeed.
\<close>

theorem stages_run_once_in_order:
  assumes "10 \<le> length (strip ts)" and "3 \<le> length (strip tp)"
  shows "let w = run_workflow e ts tp lang; s = fst w;
             post = dict_get (content_result s) ''post_content'' (PStr [])
         in snd w =
              [Call_analyze_tone (strip ts), Call_research_topic (strip tp),
               Call_create_content (tone_analysis s) (research_data s) (strip tp),
               Call_generate_image post (strip tp)] \<and>
            completed_steps s =
              stage_completed ''tone_analysis'' (tone_agent_analyze_tone e (strip ts))
              @ stage_completed ''research'' (research_agent_research_topic e (strip tp))
              @ stage_completed ''content_creation''
                  (content_agent_create_content e
                     (tone_analysis s) (research_data s) (strip tp))
              @ stage_completed ''image_generation''
                  (image_agent_generate_image e post (strip tp))"
  unfolding run_workflow_valid(2) [OF assms] workflow_invoke_initial Let_def
  by (simp only: fst_conv snd_conv WorkflowState.simps simp_thms)

theorem stages_run_once_in_order_witness:
  "10 \<le> length (strip ''I write plainly.'') \<and> 3 \<le> length (strip ''remote work'') \<and>
   run_workflow
     (scripted_env (Raises ''timeout'')
        (Returns [(''topic'', PStr ''remote work'')])
        (Returns [(''post_content'', PStr ''hello'')])
        (Returns [(''image_url'', PStr ''u'')]))
     ''I write plainly.'' ''remote work'' ''en'' =
   (\<lparr>tone_sample = ''I write plainly.'', topic = ''remote work'', language = ''en'',
      tone_analysis = [], research_data = [(''topic'', PStr ''remote work'')],
      content_result = [(''post_content'', PStr ''hello'')],
      image_result = [(''image_url'', PStr ''u'')],
      current_step = ''completed'',
      completed_steps = [''research'', ''content_creation'', ''image_generation''],
      errors = [''Tone analysis failed: timeout''],
      status = ''partially_completed''\<rparr>,
    [Call_analyze_tone ''I write plainly.'', Call_research_topic ''remote work'',
     Call_create_content [] [(''topic'', PStr ''remote work'')] ''remote work'',
     Call_generate_image (PStr ''hello'') ''remote work''])"
proof -
  have h1: "10 \<le> length (strip ''I write plainly.'')" by code_simp
  have h2: "3 \<le> length (strip ''remote work'')" by code_simp
  have s1: "strip ''I write plainly.'' = ''I write plainly.''" by code_simp
  have s2: "strip ''remote work'' = ''remote work''" by code_simp
  define E where "E = scripted_env (Raises ''timeout'')
        (Returns [(''topic'', PStr ''remote work'')])
        (Returns [(''post_content'', PStr ''hello'')])
        (Returns [(''image_url'', PStr ''u'')])"
  define w where "w = run_workflow E ''I write plainly.'' ''remote work'' ''en''"
  have f: "tone_sample (fst w) = ''I write plainly.''" "topic (fst w) = ''remote work''"
    "language (fst w) = ''en''" "tone_analysis (fst w) = []"
    "research_data (fst w) = [(''topic'', PStr ''remote work'')]"
    "content_result (fst w) = [(''post_content'', PStr ''hello'')]"
    "image_result (fst w) = [(''image_url'', PStr ''u'')]"
    "current_step (fst w) = ''completed''"
    "errors (fst w) = [''Tone analysis failed: timeout'']"
    "status (fst w) = ''partially_completed''"
    unfolding w_def E_def by code_simp+
  have ag: "tone_agent_analyze_tone E = (\<lambda>x. Raises ''timeout'')"
    "research_agent_research_topic E = (\<lambda>x. Returns [(''topic'', PStr ''remote work'')])"
    "content_agent_create_content E = (\<lambda>x y z. Returns [(''post_content'', PStr ''hello'')])"
    "image_agent_generate_image E = (\<lambda>x y. Returns [(''image_url'', PStr ''u'')])"
    by (simp_all add: E_def scripted_env_def)
  from stages_run_once_in_order [OF h1 h2, of E "''en''", folded w_def]
  have "snd w = [Call_analyze_tone ''I write plainly.'', Call_research_topic ''remote work'',
     Call_create_content [] [(''topic'', PStr ''remote work'')] ''remote work'',
     Call_generate_image (PStr ''hello'') ''remote work'']"
    and "completed_steps (fst w) = [''research'', ''content_creation'', ''image_generation'']"
    unfolding Let_def f s1 s2 ag by (simp_all add: dict_get_def stage_completed_def stage_ok_def)
  with f have "w = (\<lparr>tone_sample = ''I write plainly.'', topic = ''remote work'', language = ''en'',
      tone_analysis = [], research_data = [(''topic'', PStr ''remote work'')],
      content_result = [(''post_content'', PStr ''hello'')],
      image_result = [(''image_url'', PStr ''u'')],
      current_step = ''completed'',
      completed_steps = [''research'', ''content_creation'', ''image_generation''],
      errors = [''Tone analysis failed: timeout''],
      status = ''partially_completed''\<rparr>,
    [Call_analyze_tone ''I write plainly.'', Call_research_topic ''remote work'',
     Call_create_content [] [(''topic'', PStr ''remote work'')] ''remote work'',
     Call_generate_image (PStr ''hello'') ''remote work''])"
    by (cases w) (simp add: WorkflowState.equality)
  with h1 h2 show ?thesis unfolding w_def E_def by (intro conjI)
qed

section \<open>The state on return\<close>

text \<open>
  C8.  On a valid request the returned state has \<open>current_step\<close> at the terminal value
  \<^verbatim>\<open>"completed"\<close> and a status among \<^verbatim>\<open>"completed"\<close>, \<^verbatim>\<open>"partially_completed"\<close> and
  \<^verbatim>\<open>"failed"\<close>; it is never \<^verbatim>\<open>"starting"\<close> or \<^verbatim>\<open>"working"\<close>.
\<close>

theorem terminal_state_on_return:
  assumes "10 \<le> length (strip ts)" and "3 \<le> length (strip tp)"
  shows "let s = fst (run_workflow e ts tp lang) in
           current_step s = ''completed'' \<and>
           status s \<in> {''completed'', ''partially_completed'', ''failed''} \<and>
           status s \<noteq> ''starting'' \<and> status s \<noteq> ''working''"
proof -
  define s where "s = fst (run_workflow e ts tp lang)"
  note L = run_lists [OF assms, of e lang, folded s_def]
  have "status s = ''completed'' \<or> status s = ''partially_completed'' \<or> status s = ''failed''"
    unfolding L(6) by simp
  then have "status s \<in> {''completed'', ''partially_completed'', ''failed''} \<and>
           status s \<noteq> ''starting'' \<and> status s \<noteq> ''working''"
    by auto
  with L(5) show ?thesis
    unfolding s_def [symmetric] Let_def by (intro conjI) simp_all
qed

theorem terminal_state_on_return_witness:
  "10 \<le> length (strip ''I write plainly.'') \<and> 3 \<le> length (strip ''remote work'') \<and>
   current_step (fst (run_workflow
       (scripted_env (Raises ''a'') (Raises ''b'') (Raises ''c'') (Raises ''d''))
       ''I write plainly.'' ''remote work'' ''en'')) = ''completed'' \<and>
   status (fst (run_workflow
       (scripted_env (Raises ''a'') (Raises ''b'') (Raises ''c'') (Raises ''d''))
       ''I write plainly.'' ''remote work'' ''en'')) = ''failed''"
proof -
  have h1: "10 \<le> length (strip ''I write plainly.'')" by code_simp
  have h2: "3 \<le> length (strip ''remote work'')" by code_simp
  define s where "s = fst (run_workflow
       (scripted_env (Raises ''a'') (Raises ''b'') (Raises ''c'') (Raises ''d''))
       ''I write plainly.'' ''remote work'' ''en'')"
  have st: "status s = ''failed''"
    unfolding s_def by code_simp
  from terminal_state_on_return [OF h1 h2,
      of "scripted_env (Raises ''a'') (Raises ''b'') (Raises ''c'') (Raises ''d'')" "''en''",
      folded s_def]
  have "current_step s = ''completed''"
    unfolding Let_def by (rule conjunct1)
  with st h1 h2 show ?thesis unfolding s_def by (intro conjI)
qed

section \<open>A stage call that raises\<close>

text \<open>
  C10 reads: whatever exception a stage call raises, the node catches it, records
  \<^verbatim>\<open>"<Stage> failed: <message>"\<close>, and the run continues; the exception never leaves
  \<open>run_workflow\<close>.  The handlers are \<^verbatim>\<open>except Exception\<close>.  Here the research call raises
  \<^verbatim>\<open>KeyboardInterrupt\<close>: the run ends after the second agent call and the exception
  reaches the caller of \<open>run_workflow\<close>.
\<close>

theorem stage_exception_is_recorded_counterexample:
  "run_workflow_esc (escapes_at (Call_research_topic ''remote work'') ''KeyboardInterrupt'')
     (scripted_env (Returns [(''status'', PStr ''completed'')])
        (Returns [(''topic'', PStr ''remote work'')])
        (Returns [(''post_content'', PStr ''hello'')]) (Returns [(''image_url'', PStr ''u'')]))
     ''I write plainly.'' ''remote work'' ''en'' =
   Propagated ''KeyboardInterrupt''
     [Call_analyze_tone ''I write plainly.'', Call_research_topic ''remote work'']"
  by code_simp

text \<open>
  C10, as the code has it.  On a valid request, when no stage call raises outside
  \<^verbatim>\<open>Exception\<close>, \<open>run_workflow\<close> returns; a stage call that raises an \<^verbatim>\<open>Exception\<close> is
  caught by its node: the error list receives \<^verbatim>\<open>"<Stage> failed: <message>"\<close>, the
  stage's result field stays at its empty default, its name does not enter the completed
  steps, and the run goes on (all four agents are called and the run is finalized).  The
  first stage call that raises outside \<^verbatim>\<open>Exception\<close> ends the run: the exception leaves
  \<open>run_workflow\<close> and no later agent is called.
\<close>

theorem stage_exception_is_recorded:
  assumes "10 \<le> length (strip ts)" and "3 \<le> length (strip tp)"
  shows "let w = run_workflow e ts tp lang; s = fst w;
             post = dict_get (content_result s) ''post_content'' (PStr []);
             c1 = Call_analyze_tone (strip ts);
             c2 = Call_research_topic (strip tp);
             c3 = Call_create_content (tone_analysis s) (research_data s) (strip tp);
             c4 = Call_generate_image post (strip tp)
         in (esc c1 = None \<and> esc c2 = None \<and> esc c3 = None \<and> esc c4 = None \<longrightarrow>
               run_workflow_esc esc e ts tp lang = Returned w) \<and>
            (\<forall>x. esc c1 = Some x \<longrightarrow>
               run_workflow_esc esc e ts tp lang = Propagated x [c1]) \<and>
            (\<forall>x. esc c1 = None \<and> esc c2 = Some x \<longrightarrow>
               run_workflow_esc esc e ts tp lang = Propagated x [c1, c2]) \<and>
            (\<forall>x. esc c1 = None \<and> esc c2 = None \<and> esc c3 = Some x \<longrightarrow>
               run_workflow_esc esc e ts tp lang = Propagated x [c1, c2, c3]) \<and>
            (\<forall>x. esc c1 = None \<and> esc c2 = None \<and> esc c3 = None \<and> esc c4 = Some x \<longrightarrow>
               run_workflow_esc esc e ts tp lang = Propagated x [c1, c2, c3, c4]) \<and>
            snd w = [c1, c2, c3, c4] \<and> current_step s = ''completed'' \<and>
            (\<forall>m. tone_agent_analyze_tone e (strip ts) = Raises m \<longrightarrow>
                 tone_analysis s = [] \<and> ''tone_analysis'' \<notin> set (completed_steps s) \<and>
                 ''Tone analysis failed: '' @ m \<in> set (errors s)) \<and>
            (\<forall>m. research_agent_research_topic e (strip tp) = Raises m \<longrightarrow>
                 research_data s = [] \<and> ''research'' \<notin> set (completed_steps s) \<and>
                 ''Research failed: '' @ m \<in> set (errors s)) \<and>
            (\<forall>m. content_agent_create_content e
                   (tone_analysis s) (research_data s) (strip tp) = Raises m \<longrightarrow>
                 content_result s = [] \<and> ''content_creation'' \<notin> set (completed_steps s) \<and>
                 ''Content creation failed: '' @ m \<in> set (errors s)) \<and>
            (\<forall>m. image_agent_generate_image e post (strip tp) = Raises m \<longrightarrow>
                 image_result s = [] \<and> ''image_generation'' \<notin> set (completed_steps s) \<and>
                 ''Image generation failed: '' @ m \<in> set (errors s))"
proof -
  define w where "w = run_workflow e ts tp lang"
  define s where "s = fst w"
  define post where "post = dict_get (content_result s) ''post_content'' (PStr [])"
  define c1 where "c1 = Call_analyze_tone (strip ts)"
  define c2 where "c2 = Call_research_topic (strip tp)"
  define c3 where "c3 = Call_create_content (tone_analysis s) (research_data s) (strip tp)"
  define c4 where "c4 = Call_generate_image post (strip tp)"
  note F = run_fields [OF assms, of e lang, folded w_def, folded s_def, folded post_def]
  note X = run_workflow_esc_valid [OF assms, of esc e lang, folded w_def, folded s_def,
      folded post_def, folded c1_def c2_def c3_def c4_def]
  have x0: "run_workflow_esc esc e ts tp lang = Returned w"
    if "esc c1 = None \<and> esc c2 = None \<and> esc c3 = None \<and> esc c4 = None"
    unfolding X using that by simp
  have x1: "run_workflow_esc esc e ts tp lang = Propagated x [c1]"
    if "esc c1 = Some x" for x
    unfolding X using that by simp
  have x2: "run_workflow_esc esc e ts tp lang = Propagated x [c1, c2]"
    if "esc c1 = None \<and> esc c2 = Some x" for x
    unfolding X using that by simp
  have x3: "run_workflow_esc esc e ts tp lang = Propagated x [c1, c2, c3]"
    if "esc c1 = None \<and> esc c2 = None \<and> esc c3 = Some x" for x
    unfolding X using that by simp
  have x4: "run_workflow_esc esc e ts tp lang = Propagated x [c1, c2, c3, c4]"
    if "esc c1 = None \<and> esc c2 = None \<and> esc c3 = None \<and> esc c4 = Some x" for x
    unfolding X using that by simp
  have calls: "snd w = [c1, c2, c3, c4]"
    unfolding F(7) c1_def c2_def c3_def c4_def by (rule refl)
  have cur: "current_step s = ''completed''"
    unfolding s_def w_def by (rule run_lists(5) [OF assms])
  have t: "tone_analysis s = [] \<and> ''tone_analysis'' \<notin> set (completed_steps s) \<and>
                 ''Tone analysis failed: '' @ m \<in> set (errors s)"
    if "tone_agent_analyze_tone e (strip ts) = Raises m" for m
    unfolding F(1) F(5) F(6) that by (simp add: stage_raises not_in_stage_completed)
  have r: "research_data s = [] \<and> ''research'' \<notin> set (completed_steps s) \<and>
                 ''Research failed: '' @ m \<in> set (errors s)"
    if "research_agent_research_topic e (strip tp) = Raises m" for m
    unfolding F(2) F(5) F(6) that by (simp add: stage_raises not_in_stage_completed)
  have c: "content_result s = [] \<and> ''content_creation'' \<notin> set (completed_steps s) \<and>
                 ''Content creation failed: '' @ m \<in> set (errors s)"
    if "content_agent_create_content e
                   (tone_analysis s) (research_data s) (strip tp) = Raises m" for m
    unfolding F(3) F(5) F(6) that by (simp add: stage_raises not_in_stage_completed)
  have i: "image_result s = [] \<and> ''image_generation'' \<notin> set (completed_steps s) \<and>
                 ''Image generation failed: '' @ m \<in> set (errors s)"
    if "image_agent_generate_image e post (strip tp) = Raises m" for m
    unfolding F(4) F(5) F(6) that by (simp add: stage_raises not_in_stage_completed)
  show ?thesis
    unfolding Let_def w_def [symmetric] s_def [symmetric] post_def [symmetric]
      c1_def [symmetric] c2_def [symmetric] c3_def [symmetric] c4_def [symmetric]
    using x0 x1 x2 x3 x4 calls cur t r c i by blast
qed

theorem stage_exception_is_recorded_witness:
  "10 \<le> length (strip ''I write plainly.'') \<and> 3 \<le> length (strip ''remote work'') \<and>
   run_workflow_esc no_escape
     (scripted_env (Returns [(''status'', PStr ''completed'')]) (Raises ''no network'')
        (Returns [(''post_content'', PStr ''hello'')]) (Returns [(''image_url'', PStr ''u'')]))
     ''I write plainly.'' ''remote work'' ''en'' =
   Returned (run_workflow
     (scripted_env (Returns [(''status'', PStr ''completed'')]) (Raises ''no network'')
        (Returns [(''post_content'', PStr ''hello'')]) (Returns [(''image_url'', PStr ''u'')]))
     ''I write plainly.'' ''remote work'' ''en'') \<and>
   research_data (fst (run_workflow
       (scripted_env (Returns [(''status'', PStr ''completed'')]) (Raises ''no network'')
          (Returns [(''post_content'', PStr ''hello'')]) (Returns [(''image_url'', PStr ''u'')]))
       ''I write plainly.'' ''remote work'' ''en'')) = [] \<and>
   ''research'' \<notin> set (completed_steps (fst (run_workflow
       (scripted_env (Returns [(''status'', PStr ''completed'')]) (Raises ''no network'')
          (Returns [(''post_content'', PStr ''hello'')]) (Returns [(''image_url'', PStr ''u'')]))
       ''I write plainly.'' ''remote work'' ''en''))) \<and>
   ''Research failed: no network'' \<in> set (errors (fst (run_workflow
       (scripted_env (Returns [(''status'', PStr ''completed'')]) (Raises ''no network'')
          (Returns [(''post_content'', PStr ''hello'')]) (Returns [(''image_url'', PStr ''u'')]))
       ''I write plainly.'' ''remote work'' ''en''))) \<and>
   length (snd (run_workflow
       (scripted_env (Returns [(''status'', PStr ''completed'')]) (Raises ''no network'')
          (Returns [(''post_content'', PStr ''hello'')]) (Returns [(''image_url'', PStr ''u'')]))
       ''I write plainly.'' ''remote work'' ''en'')) = 4"
proof -
  have h1: "10 \<le> length (strip ''I write plainly.'')" by code_simp
  have h2: "3 \<le> length (strip ''remote work'')" by code_simp
  define E where "E = scripted_env (Returns [(''status'', PStr ''completed'')])
          (Raises ''no network'')
          (Returns [(''post_content'', PStr ''hello'')]) (Returns [(''image_url'', PStr ''u'')])"
  define w where "w = run_workflow E ''I write plainly.'' ''remote work'' ''en''"
  have ag: "research_agent_research_topic E (strip ''remote work'') = Raises ''no network''"
    by (simp add: E_def scripted_env_def)
  note T = stage_exception_is_recorded [OF h1 h2, where e = E and lang = "''en''"
      and esc = no_escape, folded w_def, unfolded Let_def]
  have ne: "no_escape c = None" for c
    by (simp add: no_escape_def)
  from T ne have ret: "run_workflow_esc no_escape E ''I write plainly.'' ''remote work'' ''en'' =
      Returned w"
    by blast
  from T have "snd w =
      [Call_analyze_tone (strip ''I write plainly.''), Call_research_topic (strip ''remote work''),
       Call_create_content (tone_analysis (fst w)) (research_data (fst w))
         (strip ''remote work''),
       Call_generate_image (dict_get (content_result (fst w)) ''post_content'' (PStr []))
         (strip ''remote work'')]"
    by blast
  then have "length (snd w) = 4"
    by simp
  moreover from T have "\<forall>m. research_agent_research_topic E (strip ''remote work'') = Raises m \<longrightarrow>
      research_data (fst w) = [] \<and> ''research'' \<notin> set (completed_steps (fst w)) \<and>
      ''Research failed: '' @ m \<in> set (errors (fst w))"
    by blast
  with ag
  have "research_data (fst w) = [] \<and> ''research'' \<notin> set (completed_steps (fst w)) \<and>
      ''Research failed: no network'' \<in> set (errors (fst w))"
    by simp
  ultimately show ?thesis
    using h1 h2 ret unfolding w_def E_def by (intro conjI) simp_all
qed

section \<open>When the status is failed\<close>

text \<open>
  C4 reads: for every state \<open>run_workflow\<close> returns, valid request or not, the status is
  \<^verbatim>\<open>"failed"\<close> exactly when no step completed.  A request that fails validation is
  answered with the error state, whose status is \<^verbatim>\<open>"error"\<close> although no step completed.
\<close>

theorem failed_iff_nothing_completed_counterexample:
  "completed_steps (fst (run_workflow
       (scripted_env (Returns []) (Returns []) (Returns []) (Returns []))
       ''short'' ''remote work'' ''en'')) = [] \<and>
   status (fst (run_workflow
       (scripted_env (Returns []) (Returns []) (Returns []) (Returns []))
       ''short'' ''remote work'' ''en'')) \<noteq> ''failed''"
  by code_simp

text \<open>
  C4, as the code has it.  On a valid request the returned status is \<^verbatim>\<open>"failed"\<close> exactly
  when the completed steps are empty; on a request that fails validation the completed
  steps are empty and the status is \<^verbatim>\<open>"error"\<close>.
\<close>

theorem failed_iff_nothing_completed:
  "let s = fst (run_workflow e ts tp lang) in
     (10 \<le> length (strip ts) \<and> 3 \<le> length (strip tp) \<longrightarrow>
        (status s = ''failed'') = (completed_steps s = [])) \<and>
     (length (strip ts) < 10 \<or> length (strip tp) < 3 \<longrightarrow>
        status s = ''error'' \<and> completed_steps s = [])"
proof -
  define s where "s = fst (run_workflow e ts tp lang)"
  have a: "(status s = ''failed'') = (completed_steps s = [])"
    if v: "10 \<le> length (strip ts) \<and> 3 \<le> length (strip tp)"
  proof -
    from v have v1: "10 \<le> length (strip ts)" and v2: "3 \<le> length (strip tp)"
      by simp_all
    note L = run_lists [OF v1 v2, of e lang, folded s_def]
    show ?thesis
      unfolding L(6) by (cases "completed_steps s") simp_all
  qed
  have b: "status s = ''error'' \<and> completed_steps s = []"
    if "length (strip ts) < 10 \<or> length (strip tp) < 3"
    unfolding s_def run_workflow_invalid(2) [OF that] by (simp add: error_state_def)
  from a b show ?thesis
    unfolding s_def [symmetric] Let_def by blast
qed

theorem failed_iff_nothing_completed_witness:
  "10 \<le> length (strip ''I write plainly.'') \<and> 3 \<le> length (strip ''remote work'') \<and>
   completed_steps (fst (run_workflow
       (scripted_env (Raises ''a'') (Raises ''b'') (Raises ''c'') (Raises ''d''))
       ''I write plainly.'' ''remote work'' ''en'')) = [] \<and>
   status (fst (run_workflow
       (scripted_env (Raises ''a'') (Raises ''b'') (Raises ''c'') (Raises ''d''))
       ''I write plainly.'' ''remote work'' ''en'')) = ''failed'' \<and>
   length (strip ''short'') < 10 \<and>
   status (fst (run_workflow
       (scripted_env (Raises ''a'') (Raises ''b'') (Raises ''c'') (Raises ''d''))
       ''short'' ''remote work'' ''en'')) = ''error''"
proof -
  have h1: "10 \<le> length (strip ''I write plainly.'')" by code_simp
  have h2: "3 \<le> length (strip ''remote work'')" by code_simp
  have h3: "length (strip ''short'') < 10" by code_simp
  define E where "E = scripted_env (Raises ''a'') (Raises ''b'') (Raises ''c'') (Raises ''d'')"
  define s where "s = fst (run_workflow E ''I write plainly.'' ''remote work'' ''en'')"
  define s' where "s' = fst (run_workflow E ''short'' ''remote work'' ''en'')"
  have co: "completed_steps s = []"
    unfolding s_def E_def by code_simp
  from failed_iff_nothing_completed [of E "''I write plainly.''" "''remote work''" "''en''",
      folded s_def] h1 h2 co
  have st: "status s = ''failed''"
    unfolding Let_def by simp
  from failed_iff_nothing_completed [of E "''short''" "''remote work''" "''en''",
      folded s'_def] h3
  have st': "status s' = ''error''"
    unfolding Let_def by simp
  from h1 h2 co st h3 st' show ?thesis
    unfolding s_def s'_def E_def by (intro conjI)
qed

section \<open>One outcome per stage\<close>

text \<open>
  C7.  In the state \<open>run_workflow\<close> returns, and in every state of a valid run (the initial
  state and the state after each node), the completed steps and the errors together have
  at most four entries and the completed steps have no duplicate.  Each of the four stage
  nodes adds exactly one entry to exactly one of the two lists, according to the outcome
  of its own agent call: its name to the completed steps on success, or one message to
  the errors on failure; finalization adds nothing.
\<close>

theorem one_outcome_per_stage:
  "(let s = fst (run_workflow e ts tp lang) in
      length (completed_steps s) + length (errors s) \<le> 4 \<and> distinct (completed_steps s)) \<and>
   (10 \<le> length (strip ts) \<and> 3 \<le> length (strip tp) \<longrightarrow>
      (let w0 = (initial_state ts tp lang, []); ws = w0 # states_from e entry_point w0 in
         length ws = 6 \<and> last ws = run_workflow e ts tp lang \<and>
         (\<forall>w \<in> set ws.
            length (completed_steps (fst w)) + length (errors (fst w)) \<le> 4 \<and>
            distinct (completed_steps (fst w))) \<and>
         records_outcome e ''tone_analysis'' ''Tone analysis''
           (tone_agent_analyze_tone e (tone_sample (fst (ws ! 0))))
           (fst (ws ! 0)) (fst (ws ! 1)) \<and>
         records_outcome e ''research'' ''Research''
           (research_agent_research_topic e (topic (fst (ws ! 1))))
           (fst (ws ! 1)) (fst (ws ! 2)) \<and>
         records_outcome e ''content_creation'' ''Content creation''
           (content_agent_create_content e (tone_analysis (fst (ws ! 2)))
              (research_data (fst (ws ! 2))) (topic (fst (ws ! 2))))
           (fst (ws ! 2)) (fst (ws ! 3)) \<and>
         records_outcome e ''image_generation'' ''Image generation''
           (image_agent_generate_image e
              (dict_get (content_result (fst (ws ! 3))) ''post_content'' (PStr []))
              (topic (fst (ws ! 3))))
           (fst (ws ! 3)) (fst (ws ! 4)) \<and>
         completed_steps (fst (ws ! 5)) = completed_steps (fst (ws ! 4)) \<and>
         errors (fst (ws ! 5)) = errors (fst (ws ! 4))))"
proof -
  define w0 :: world where "w0 = (initial_state ts tp lang, [])"
  define w1 where "w1 = analyze_tone e w0"
  define w2 where "w2 = research_topic e w1"
  define w3 where "w3 = create_content e w2"
  define w4 where "w4 = generate_image e w3"
  define w5 where "w5 = finalize_workflow e w4"
  define ws where "ws = w0 # states_from e entry_point w0"
  have ws: "ws = [w0, w1, w2, w3, w4, w5]"
    unfolding ws_def states_from_unfold Let_def w1_def w2_def w3_def w4_def w5_def
    by (rule refl)
  have nth: "ws ! 0 = w0" "ws ! 1 = w1" "ws ! 2 = w2" "ws ! 3 = w3" "ws ! 4 = w4" "ws ! 5 = w5"
    unfolding ws by simp_all
  have r1: "records_outcome e ''tone_analysis'' ''Tone analysis''
           (tone_agent_analyze_tone e (tone_sample (fst w0))) (fst w0) (fst w1)"
    unfolding w1_def by (rule analyze_tone_records)
  have r2: "records_outcome e ''research'' ''Research''
           (research_agent_research_topic e (topic (fst w1))) (fst w1) (fst w2)"
    unfolding w2_def by (rule research_topic_records)
  have r3: "records_outcome e ''content_creation'' ''Content creation''
           (content_agent_create_content e (tone_analysis (fst w2))
              (research_data (fst w2)) (topic (fst w2))) (fst w2) (fst w3)"
    unfolding w3_def by (rule create_content_records)
  have r4: "records_outcome e ''image_generation'' ''Image generation''
           (image_agent_generate_image e
              (dict_get (content_result (fst w3)) ''post_content'' (PStr []))
              (topic (fst w3))) (fst w3) (fst w4)"
    unfolding w4_def by (rule generate_image_records)
  note r = r1 [THEN records_outcome_adds] r2 [THEN records_outcome_adds]
    r3 [THEN records_outcome_adds] r4 [THEN records_outcome_adds]
  have i: "completed_steps (fst w0) = []" "errors (fst w0) = []"
    by (simp_all add: w0_def initial_state_def)
  have d: "distinct [''tone_analysis'', ''research'', ''content_creation'', ''image_generation'']"
    by simp
  have f: "completed_steps (fst w5) = completed_steps (fst w4)"
    "errors (fst w5) = errors (fst w4)"
    unfolding w5_def by (rule finalize_workflow_lists)+
  note inv = four_records [OF r i d]
  have all: "\<forall>w \<in> set ws.
            length (completed_steps (fst w)) + length (errors (fst w)) \<le> 4 \<and>
            distinct (completed_steps (fst w))"
    using inv f unfolding ws by simp
  have len: "length ws = 6"
    unfolding ws by simp
  have valid: "last ws = run_workflow e ts tp lang"
    if "10 \<le> length (strip ts) \<and> 3 \<le> length (strip tp)"
  proof -
    from that have "run_workflow e ts tp lang = workflow_invoke e w0"
      unfolding w0_def by (simp add: run_workflow_valid(2))
    also have "\<dots> = w5"
      unfolding workflow_invoke_unfold w5_def w4_def w3_def w2_def w1_def by (rule refl)
    finally show ?thesis
      unfolding ws by simp
  qed
  have ret: "length (completed_steps (fst (run_workflow e ts tp lang)))
               + length (errors (fst (run_workflow e ts tp lang))) \<le> 4 \<and>
             distinct (completed_steps (fst (run_workflow e ts tp lang)))"
  proof (cases "10 \<le> length (strip ts) \<and> 3 \<le> length (strip tp)")
    case True
    from valid [OF True] have "run_workflow e ts tp lang = w5"
      unfolding ws by simp
    with all show ?thesis
      unfolding ws by simp
  next
    case False
    then have "length (strip ts) < 10 \<or> length (strip tp) < 3"
      by auto
    from run_workflow_invalid(2) [OF this, of e lang] show ?thesis
      by (simp add: error_state_def)
  qed
  from ret len valid all r1 r2 r3 r4 f show ?thesis
    unfolding Let_def w0_def [symmetric] ws_def [symmetric] nth by blast
qed

theorem one_outcome_per_stage_witness:
  "10 \<le> length (strip ''I write plainly.'') \<and> 3 \<le> length (strip ''remote work'') \<and>
   completed_steps (fst (run_workflow
       (scripted_env (Returns [(''error'', PStr ''boom'')])
          (Returns [(''topic'', PStr ''remote work'')])
          (Returns [(''post_content'', PStr ''hello'')]) (Raises ''quota''))
       ''I write plainly.'' ''remote work'' ''en'')) = [''research'', ''content_creation''] \<and>
   length (errors (fst (run_workflow
       (scripted_env (Returns [(''error'', PStr ''boom'')])
          (Returns [(''topic'', PStr ''remote work'')])
          (Returns [(''post_content'', PStr ''hello'')]) (Raises ''quota''))
       ''I write plainly.'' ''remote work'' ''en''))) \<le> 2 \<and>
   errors (fst (analyze_tone
        (scripted_env (Returns [(''error'', PStr ''boom'')])
          (Returns [(''topic'', PStr ''remote work'')])
          (Returns [(''post_content'', PStr ''hello'')]) (Raises ''quota''))
        (initial_state ''I write plainly.'' ''remote work'' ''en'', []))) =
     [''Tone analysis error: boom''] \<and>
   completed_steps (fst (analyze_tone
        (scripted_env (Returns [(''error'', PStr ''boom'')])
          (Returns [(''topic'', PStr ''remote work'')])
          (Returns [(''post_content'', PStr ''hello'')]) (Raises ''quota''))
        (initial_state ''I write plainly.'' ''remote work'' ''en'', []))) = []"
proof -
  have h1: "10 \<le> length (strip ''I write plainly.'')" by code_simp
  have h2: "3 \<le> length (strip ''remote work'')" by code_simp
  define E where "E = scripted_env (Returns [(''error'', PStr ''boom'')])
          (Returns [(''topic'', PStr ''remote work'')])
          (Returns [(''post_content'', PStr ''hello'')]) (Raises ''quota'')"
  define w0 :: world where "w0 = (initial_state ''I write plainly.'' ''remote work'' ''en'', [])"
  define s where "s = fst (run_workflow E ''I write plainly.'' ''remote work'' ''en'')"
  have co: "completed_steps s = [''research'', ''content_creation'']"
    unfolding s_def E_def by code_simp
  have ag: "tone_agent_analyze_tone E = (\<lambda>x. Returns [(''error'', PStr ''boom'')])"
    by (simp add: E_def scripted_env_def)
  have i: "completed_steps (fst w0) = []" "errors (fst w0) = []"
    by (simp_all add: w0_def initial_state_def)
  note T = one_outcome_per_stage [of E "''I write plainly.''" "''remote work''" "''en''",
      folded s_def, unfolded Let_def, folded w0_def]
  from T have "length (completed_steps s) + length (errors s) \<le> 4"
    by blast
  then have er: "length (errors s) \<le> 2"
    unfolding co by simp
  from T h1 h2 have "records_outcome E ''tone_analysis'' ''Tone analysis''
           (tone_agent_analyze_tone E
              (tone_sample (fst ((w0 # states_from E entry_point w0) ! 0))))
           (fst ((w0 # states_from E entry_point w0) ! 0))
           (fst ((w0 # states_from E entry_point w0) ! 1))"
    by blast
  then have ro: "errors (fst (analyze_tone E w0)) = [''Tone analysis error: boom''] \<and>
      completed_steps (fst (analyze_tone E w0)) = []"
    unfolding states_from_unfold Let_def ag
    by (simp add: records_outcome_def i py_format_def)
  from h1 h2 co er ro show ?thesis
    unfolding s_def E_def w0_def by (intro conjI) simp_all
qed

section \<open>The per-stage status of a failed stage\<close>

text \<open>
  C5 reads: a stage whose failure the workflow recorded in the error list is reported as
  \<^verbatim>\<open>"error"\<close> by \<open>get_workflow_status\<close>.  The reporter looks for the step names
  (\<^verbatim>\<open>tone_analysis\<close>, with an underscore) inside the lower-cased messages, and the
  messages the nodes write start with \<^verbatim>\<open>"Tone analysis error: "\<close>, with a space.  Here
  the tone stage fails with the message \<^verbatim>\<open>boom\<close> and the three later stages succeed: the
  failure is in the error list, and the tone stage is reported as \<^verbatim>\<open>"waiting"\<close>.
\<close>

theorem failed_stage_reported_waiting:
  "errors (fst (run_workflow
       (scripted_env (Returns [(''error'', PStr ''boom'')])
          (Returns [(''topic'', PStr ''remote work'')])
          (Returns [(''post_content'', PStr ''hello'')])
          (Returns [(''image_url'', PStr ''u'')]))
       ''I write plainly.'' ''remote work'' ''en'')) = [''Tone analysis error: boom''] \<and>
   get_workflow_status (fst (run_workflow
       (scripted_env (Returns [(''error'', PStr ''boom'')])
          (Returns [(''topic'', PStr ''remote work'')])
          (Returns [(''post_content'', PStr ''hello'')])
          (Returns [(''image_url'', PStr ''u'')]))
       ''I write plainly.'' ''remote work'' ''en'')) =
     [(''tone_analysis'', ''waiting''), (''research'', ''completed''),
      (''content_creation'', ''completed''), (''image_generation'', ''completed'')]"
  by code_simp

section \<open>The per-stage status of a completed stage\<close>

text \<open>
  C6 reads: a stage among the completed steps is always reported as \<^verbatim>\<open>"completed"\<close>,
  whatever the text of the error entries.  Here the tone stage fails with a message that
  mentions research, and the research stage completes: research is among the completed
  steps and is reported as \<^verbatim>\<open>"error"\<close>.
\<close>

theorem completed_stage_reported_error:
  "completed_steps (fst (run_workflow
       (scripted_env (Returns [(''error'', PStr ''research quota exceeded'')])
          (Returns [(''topic'', PStr ''remote work'')])
          (Returns [(''post_content'', PStr ''hello'')])
          (Returns [(''image_url'', PStr ''u'')]))
       ''I write plainly.'' ''remote work'' ''en'')) =
     [''research'', ''content_creation'', ''image_generation''] \<and>
   errors (fst (run_workflow
       (scripted_env (Returns [(''error'', PStr ''research quota exceeded'')])
          (Returns [(''topic'', PStr ''remote work'')])
          (Returns [(''post_content'', PStr ''hello'')])
          (Returns [(''image_url'', PStr ''u'')]))
       ''I write plainly.'' ''remote work'' ''en'')) =
     [''Tone analysis error: research quota exceeded''] \<and>
   get_workflow_status (fst (run_workflow
       (scripted_env (Returns [(''error'', PStr ''research quota exceeded'')])
          (Returns [(''topic'', PStr ''remote work'')])
          (Returns [(''post_content'', PStr ''hello'')])
          (Returns [(''image_url'', PStr ''u'')]))
       ''I write plainly.'' ''remote work'' ''en'')) =
     [(''tone_analysis'', ''waiting''), (''research'', ''error''),
      (''content_creation'', ''completed''), (''image_generation'', ''completed'')]"
  by code_simp

end
